theory Spec2Isabelle
  imports Complex_Main "HOL-Library.Log_Nat" "HOL-Library.Sublist"
begin

section \<open>Strings\<close>

text \<open>
  A Python \<open>str\<close> is modelled by the bytes of its UTF-8 encoding, as a \<open>string\<close>.
  Comparison of two such strings byte by byte is comparison by code point, as Python's
  \<open>==\<close>, \<open><=\<close> and \<open>>=\<close> on \<open>str\<close> are. Case conversion, whitespace and digits are
  those of Python on the ASCII characters. Of the characters beyond ASCII, whose case
  and class Python takes from the Unicode database, only the one that \<open>title\<close> names
  below is modelled; the bytes of every other are left alone. A statement that depends
  on what these functions do to a character is therefore made for ASCII text
  (\<open>ascii\<close>), or at that character.
\<close>

definition ascii :: "string \<Rightarrow> bool" where
  "ascii s = list_all (\<lambda>c. (of_char c :: nat) < 128) s"

definition is_upper :: "char \<Rightarrow> bool" where
  "is_upper c = (let n = (of_char c :: nat) in 65 \<le> n \<and> n \<le> 90)"

definition is_lower :: "char \<Rightarrow> bool" where
  "is_lower c = (let n = (of_char c :: nat) in 97 \<le> n \<and> n \<le> 122)"

definition is_cased :: "char \<Rightarrow> bool" where
  "is_cased c = (is_upper c \<or> is_lower c)"

definition is_digit :: "char \<Rightarrow> bool" where
  "is_digit c = (let n = (of_char c :: nat) in 48 \<le> n \<and> n \<le> 57)"

text \<open>\<open>str.isspace\<close> on ASCII: tab, LF, VT, FF, CR, the separators 0x1c..0x1f and space.\<close>

definition is_space :: "char \<Rightarrow> bool" where
  "is_space c = (let n = (of_char c :: nat) in (9 \<le> n \<and> n \<le> 13) \<or> (28 \<le> n \<and> n \<le> 32))"

definition to_lower :: "char \<Rightarrow> char" where
  "to_lower c = (if is_upper c then char_of ((of_char c :: nat) + 32) else c)"

definition to_upper :: "char \<Rightarrow> char" where
  "to_upper c = (if is_lower c then char_of ((of_char c :: nat) - 32) else c)"

text \<open>\<open>s.lower()\<close>\<close>

definition lower :: "string \<Rightarrow> string" where
  "lower s = map to_lower s"

text \<open>\<open>s.strip()\<close>: whitespace is removed at both ends.\<close>

definition strip :: "string \<Rightarrow> string" where
  "strip s = rev (dropWhile is_space (rev (dropWhile is_space s)))"

text \<open>A string that \<open>strip\<close> leaves as it is: no whitespace at either end.\<close>

definition stripped :: "string \<Rightarrow> bool" where
  "stripped s = (s = [] \<or> (\<not> is_space (hd s) \<and> \<not> is_space (last s)))"

text \<open>
  \<open>s.title()\<close>: a character that follows a cased character is lowered, any other is
  put in title case (upper case, for ASCII). Title case may be more than one character:
  U+01F0, the small letter j with caron (bytes \<open>C7 B0\<close>), is a cased letter that
  lowering keeps and that title case turns into \<open>J\<close> followed by U+030C, the combining
  caron (bytes \<open>CC 8C\<close>), which is not cased.
\<close>

fun title_from :: "bool \<Rightarrow> string \<Rightarrow> string" where
  "title_from previous_is_cased [] = []"
| "title_from previous_is_cased [c] = [if previous_is_cased then to_lower c else to_upper c]"
| "title_from previous_is_cased (c # d # cs) =
     (if c = CHR 0xC7 \<and> d = CHR 0xB0
      then (if previous_is_cased then [c, d] else [CHR ''J'', CHR 0xCC, CHR 0x8C])
           @ title_from True cs
      else (if previous_is_cased then to_lower c else to_upper c)
           # title_from (is_cased c) (d # cs))"

definition title :: "string \<Rightarrow> string" where
  "title s = title_from False s"

text \<open>\<open>s.capitalize()\<close>: the first character in upper case, the rest lowered.\<close>

definition capitalize :: "string \<Rightarrow> string" where
  "capitalize s = (case s of [] \<Rightarrow> [] | c # cs \<Rightarrow> to_upper c # map to_lower cs)"

section \<open>Dates: \<open>datetime.strptime(s, "%Y-%m-%d").date()\<close>\<close>

text \<open>
  \<open>strptime\<close> turns the format into the regular expression
  \<^verbatim>\<open>(?P<Y>\d\d\d\d)-(?P<m>1[0-2]|0[1-9]|[1-9])-(?P<d>3[0-1]|[1-2]\d|0[1-9]|[1-9]| [1-9])\<close>,
  matches it at the start of the string, and raises \<open>ValueError\<close> when there is no
  match, when the match leaves characters over, or when the three numbers are not a date
  of the calendar. Each group below lists its alternatives in the order the matcher tries
  them; the match is the first way through all of them.
\<close>

record pydate =
  year :: int
  month :: int
  day :: int

fun digit_val :: "char \<Rightarrow> int" where
  "digit_val c = int (of_char c) - 48"

text \<open>\<open>int(s)\<close> on a group that matched: decimal digits, after blanks the pattern let in.\<close>

definition int_of_digits :: "string \<Rightarrow> int" where
  "int_of_digits s = foldl (\<lambda>acc c. 10 * acc + digit_val c) 0 (dropWhile is_space s)"

fun alts_Y :: "string \<Rightarrow> (string \<times> string) list" where
  "alts_Y (a # b # c # d # r) =
     (if is_digit a \<and> is_digit b \<and> is_digit c \<and> is_digit d then [([a, b, c, d], r)] else [])"
| "alts_Y _ = []"

fun lit :: "char \<Rightarrow> string \<Rightarrow> string list" where
  "lit x (c # r) = (if c = x then [r] else [])"
| "lit x [] = []"

fun two_chars :: "(char \<Rightarrow> bool) \<Rightarrow> (char \<Rightarrow> bool) \<Rightarrow> string \<Rightarrow> (string \<times> string) list" where
  "two_chars p q (a # b # r) = (if p a \<and> q b then [([a, b], r)] else [])"
| "two_chars p q _ = []"

fun one_char :: "(char \<Rightarrow> bool) \<Rightarrow> string \<Rightarrow> (string \<times> string) list" where
  "one_char p (a # r) = (if p a then [([a], r)] else [])"
| "one_char p [] = []"

definition in_range :: "char \<Rightarrow> char \<Rightarrow> char \<Rightarrow> bool" where
  "in_range lo hi c = ((of_char lo :: nat) \<le> of_char c \<and> (of_char c :: nat) \<le> of_char hi)"

definition alts_m :: "string \<Rightarrow> (string \<times> string) list" where
  "alts_m s =
     two_chars (\<lambda>c. c = CHR ''1'') (in_range CHR ''0'' CHR ''2'') s
     @ two_chars (\<lambda>c. c = CHR ''0'') (in_range CHR ''1'' CHR ''9'') s
     @ one_char (in_range CHR ''1'' CHR ''9'') s"

definition alts_d :: "string \<Rightarrow> (string \<times> string) list" where
  "alts_d s =
     two_chars (\<lambda>c. c = CHR ''3'') (in_range CHR ''0'' CHR ''1'') s
     @ two_chars (in_range CHR ''1'' CHR ''2'') is_digit s
     @ two_chars (\<lambda>c. c = CHR ''0'') (in_range CHR ''1'' CHR ''9'') s
     @ one_char (in_range CHR ''1'' CHR ''9'') s
     @ two_chars (\<lambda>c. c = CHR '' '') (in_range CHR ''1'' CHR ''9'') s"

text \<open>All ways through the pattern, in the matcher's order: groups Y, m, d and the rest.\<close>

definition format_matches :: "string \<Rightarrow> (string \<times> string \<times> string \<times> string) list" where
  "format_matches s =
     concat (map (\<lambda>(y, r1).
       concat (map (\<lambda>r2.
         concat (map (\<lambda>(m, r3).
           concat (map (\<lambda>r4.
             map (\<lambda>(d, r5). (y, m, d, r5)) (alts_d r4))
           (lit CHR ''-'' r3)))
         (alts_m r2)))
       (lit CHR ''-'' r1)))
     (alts_Y s))"

definition is_leap :: "int \<Rightarrow> bool" where
  "is_leap y = (y mod 4 = 0 \<and> (y mod 100 \<noteq> 0 \<or> y mod 400 = 0))"

definition days_in_month :: "int \<Rightarrow> int \<Rightarrow> int" where
  "days_in_month y m =
     (if m = 2 then (if is_leap y then 29 else 28)
      else if m = 4 \<or> m = 6 \<or> m = 9 \<or> m = 11 then 30 else 31)"

text \<open>\<open>datetime.date(y, m, d)\<close>: \<open>None\<close> is the \<open>ValueError\<close> of a date out of range.\<close>

definition make_date :: "int \<Rightarrow> int \<Rightarrow> int \<Rightarrow> pydate option" where
  "make_date y m d =
     (if 1 \<le> y \<and> y \<le> 9999 \<and> 1 \<le> m \<and> m \<le> 12 \<and> 1 \<le> d \<and> d \<le> days_in_month y m
      then Some \<lparr>year = y, month = m, day = d\<rparr> else None)"

text \<open>\<open>None\<close> is any \<open>ValueError\<close> of \<open>strptime\<close>.\<close>

definition strptime :: "string \<Rightarrow> pydate option" where
  "strptime s =
     (case format_matches s of
        [] \<Rightarrow> None
      | (y, m, d, rest) # _ \<Rightarrow>
          if rest \<noteq> [] then None
          else make_date (int_of_digits y) (int_of_digits m) (int_of_digits d))"

section \<open>Attendance records\<close>

datatype error =
    ValueError string
  | AttributeError string string
  | FileNotFoundError string
  | UnicodeDecodeError
  | JSONDecodeError
  | RecursionError

definition VALID_STATUSES :: "string list" where
  "VALID_STATUSES = [''Present'', ''Absent'', ''Late'']"

record attendance_record =
  student_name :: string
  date :: string
  status :: string
  remarks :: string

text \<open>The messages of the errors that the specification names.\<close>

definition InvalidDate :: error where
  "InvalidDate = ValueError ''Date must be in YYYY-MM-DD format, e.g., 2025-08-24''"

definition InvalidStatus :: error where
  "InvalidStatus = ValueError ''Status must be one of: Present, Absent, Late''"

definition MissingRemarks :: error where
  "MissingRemarks = ValueError ''Remarks are required when the student is Absent.''"

definition EmptyName :: error where
  "EmptyName = ValueError ''Student name cannot be empty.''"

definition DuplicateRecord :: "attendance_record \<Rightarrow> error" where
  "DuplicateRecord rec =
     ValueError (''Attendance already exists for '' @ student_name rec @ '' on '' @ date rec @ ''.'')"

text \<open>
  \<open>AttendanceRecord.clean\<close>. The fields are strings, for which \<open>x or ""\<close> is \<open>x\<close>.
\<close>

definition clean :: "attendance_record \<Rightarrow> attendance_record" where
  "clean self =
     \<lparr>student_name = title (strip (student_name self)),
      date = strip (date self),
      status = capitalize (strip (status self)),
      remarks = strip (remarks self)\<rparr>"

text \<open>
  \<open>AttendanceRecord.validate\<close>: the record is cleaned in place, then checked; the
  result is the error raised, or the record as \<open>clean\<close> left it.
\<close>

definition validate :: "attendance_record \<Rightarrow> error + attendance_record" where
  "validate self0 =
     (let self = clean self0 in
      if strptime (date self) = None then Inl InvalidDate
      else if status self \<notin> set VALID_STATUSES then Inl InvalidStatus
      else if status self = ''Absent'' \<and> remarks self = [] then Inl MissingRemarks
      else if student_name self = [] then Inl EmptyName
      else Inr self)"

section \<open>The backing file: \<open>json.dump(self._data, f, indent=2, ensure_ascii=False)\<close>\<close>

text \<open>
  The store holds dictionaries with the four keys of a record and string values; they are
  modelled by \<open>attendance_record\<close>, in the key order \<open>student_name, date, status,
  remarks\<close>. The text below is what the encoder of the \<open>json\<close> module writes for a
  list of such dictionaries with \<open>indent=2\<close> and \<open>ensure_ascii=False\<close>.
\<close>

definition dquote :: char where "dquote = CHR 0x22"
definition backslash :: char where "backslash = CHR 0x5C"
definition newline :: char where "newline = CHR 0x0A"

definition hex_digit :: "nat \<Rightarrow> char" where
  "hex_digit n = ''0123456789abcdef'' ! (n mod 16)"

text \<open>
  \<open>encode_basestring\<close>: the quote, the backslash and the control characters are
  escaped, every other character is written as it is.
\<close>

definition escape_char :: "char \<Rightarrow> string" where
  "escape_char c =
     (let n = (of_char c :: nat) in
      if c = backslash then [backslash, backslash]
      else if c = dquote then [backslash, dquote]
      else if n = 8 then [backslash, CHR ''b'']
      else if n = 12 then [backslash, CHR ''f'']
      else if n = 10 then [backslash, CHR ''n'']
      else if n = 13 then [backslash, CHR ''r'']
      else if n = 9 then [backslash, CHR ''t'']
      else if n < 32 then [backslash, CHR ''u'', CHR ''0'', CHR ''0'', hex_digit (n div 16), hex_digit n]
      else [c])"

definition encode_basestring :: "string \<Rightarrow> string" where
  "encode_basestring s = [dquote] @ concat (map escape_char s) @ [dquote]"

definition newline_indent :: "nat \<Rightarrow> string" where
  "newline_indent level = newline # replicate (2 * level) CHR '' ''"

definition encode_item :: "string \<Rightarrow> string \<Rightarrow> string" where
  "encode_item key val = encode_basestring key @ '': '' @ encode_basestring val"

text \<open>A dictionary that is an element of the top-level list: its items are at level 2.\<close>

definition encode_dict :: "attendance_record \<Rightarrow> string" where
  "encode_dict r =
     ''{'' @ newline_indent 2 @ encode_item ''student_name'' (student_name r)
     @ '','' @ newline_indent 2 @ encode_item ''date'' (date r)
     @ '','' @ newline_indent 2 @ encode_item ''status'' (status r)
     @ '','' @ newline_indent 2 @ encode_item ''remarks'' (remarks r)
     @ newline_indent 1 @ ''}''"

fun encode_list :: "attendance_record list \<Rightarrow> string" where
  "encode_list [] = ''[]''"
| "encode_list (r # rs) =
     ''['' @ newline_indent 1 @ encode_dict r
     @ concat (map (\<lambda>r. '','' @ newline_indent 1 @ encode_dict r) rs)
     @ newline_indent 0 @ '']''"

section \<open>Floating point\<close>

text \<open>
  A binary64 value is modelled by the rational number it denotes. \<open>fl\<close> rounds a
  non-negative rational to the nearest binary64 value, ties to even; the results here
  lie between 0 and 100, far from overflow.
\<close>

definition round_half_even :: "rat \<Rightarrow> int" where
  "round_half_even q =
     (let f = \<lfloor>q\<rfloor>; d = q - of_int f in
      if d < 1 / 2 then f else if 1 / 2 < d then f + 1 else if even f then f else f + 1)"

definition floor_log2 :: "rat \<Rightarrow> int" where
  "floor_log2 q =
     (let (a, b) = quotient_of q;
          k = bitlen a - bitlen b
      in if 2 powi k \<le> q then k else k - 1)"

definition fl :: "rat \<Rightarrow> rat" where
  "fl q =
     (if q \<le> 0 then 0
      else let e = max (floor_log2 q - 52) (- 1074)
           in of_int (round_half_even (q / 2 powi e)) * 2 powi e)"

text \<open>\<open>a / b\<close> on two \<open>int\<close>s: the quotient, correctly rounded.\<close>

datatype arith_error = ZeroDivisionError

definition truediv :: "int \<Rightarrow> int \<Rightarrow> arith_error + rat" where
  "truediv a b = (if b = 0 then Inl ZeroDivisionError else Inr (fl (of_int a / of_int b)))"

text \<open>\<open>x * 100\<close> on a float.\<close>

definition times_100 :: "rat \<Rightarrow> rat" where
  "times_100 x = fl (x * 100)"

text \<open>
  \<open>round(x, 2)\<close> on a float: the nearest decimal with two places to the exact value of
  \<open>x\<close>, ties to even, and then the binary64 value nearest to that decimal.
\<close>

definition round_2 :: "rat \<Rightarrow> rat" where
  "round_2 x = fl (of_int (round_half_even (x * 100)) / 100)"

section \<open>Reading the backing file: \<open>json.load(f)\<close>\<close>

text \<open>
  The file is opened as text in UTF-8; \<open>json.load\<close> reads all of it and decodes it.
  \<open>read\<close> raises \<open>UnicodeDecodeError\<close> on bytes that are not well-formed UTF-8, and
  turns every line ending into a line feed. The decoder of the \<open>json\<close> module goes
  through the text from left to right: a scanner cuts the next token off the text, and a
  machine with a stack of the arrays and objects that are open takes it. Numbers are kept
  as they are written. The decoder stops at the first error. An error of syntax is
  \<open>JSONDecodeError\<close>; the decoder also calls itself for every array and object that
  opens, and converts every integer with \<open>int\<close>, and so raises \<open>RecursionError\<close> when
  the nesting is deeper than the interpreter allows and \<open>ValueError\<close> when an integer
  has more digits than the interpreter converts. The two limits are parameters of the
  model. Memory is taken to be without limit.
\<close>

subsection \<open>UTF-8\<close>







subsection \<open>Values\<close>



subsection \<open>The scanner\<close>



























subsection \<open>The parser\<close>








subsection \<open>The limits of the interpreter\<close>













section \<open>The store\<close>

text \<open>
  The state of an \<open>AttendanceDB\<close> whose attributes \<open>path\<close> and \<open>_data\<close> are set, as
  \<open>_init_\<close> sets them, together with the files it reads and writes: a file is the
  sequence of its bytes. The attribute \<open>_data\<close> is the field \<open>p_data\<close>; the methods
  \<open>_load\<close> and \<open>_save\<close> are \<open>p_load\<close> and \<open>p_save\<close>.
\<close>

record store =
  path :: string
  p_data :: "attendance_record list"
  files :: "string \<rightharpoonup> string"


text \<open>
  \<open>_save\<close>: the file at \<open>path\<close> is opened for writing, which empties it, and the
  whole of \<open>_data\<close> is written. The text is written in UTF-8: in this model, as it is.
\<close>

definition p_save :: "store \<Rightarrow> store" where
  "p_save self = self\<lparr>files := (files self)(path self \<mapsto> encode_list (p_data self))\<rparr>"

text \<open>
  The loop of \<open>add_record\<close> over \<open>_data\<close>: the first stored record with the name of
  \<open>rec\<close>, compared in lower case, and its date.
\<close>

fun find_existing :: "attendance_record list \<Rightarrow> attendance_record \<Rightarrow> attendance_record option" where
  "find_existing [] rec = None"
| "find_existing (r # rs) rec =
     (if lower (student_name r) = lower (student_name rec) \<and> date r = date rec then Some r
      else find_existing rs rec)"

text \<open>
  Line 65 of the source reads \<open>self.data.append(rec.dict_)\<close>. No attribute \<open>data\<close> is
  ever assigned on an \<open>AttendanceDB\<close> (the attributes are \<open>path\<close> and \<open>_data\<close>), and an
  \<open>AttendanceRecord\<close> has the four fields of the dataclass and no attribute \<open>dict_\<close>:
  each lookup raises \<open>AttributeError\<close>.
\<close>

definition attr_data :: "store \<Rightarrow> error + attendance_record list" where
  "attr_data self = Inl (AttributeError ''AttendanceDB'' ''data'')"

definition attr_dict :: "attendance_record \<Rightarrow> error + attendance_record" where
  "attr_dict rec = Inl (AttributeError ''AttendanceRecord'' ''dict_'')"

text \<open>
  \<open>add_record\<close>: the outcome (\<open>Inr ()\<close> when the call returns, \<open>Inl e\<close> when it
  raises \<open>e\<close>) and the state the call leaves. Were the two lookups of line 65 to
  succeed, the list that \<open>self.data\<close> names would be extended, \<open>_data\<close> would stay as
  it is, and \<open>_save\<close> would write \<open>_data\<close>.
\<close>

definition add_record :: "store \<Rightarrow> attendance_record \<Rightarrow> (error + unit) \<times> store" where
  "add_record self rec0 =
     (case validate rec0 of
        Inl e \<Rightarrow> (Inl e, self)
      | Inr rec \<Rightarrow>
          (case find_existing (p_data self) rec of
             Some r \<Rightarrow> (Inl (DuplicateRecord rec), self)
           | None \<Rightarrow>
               (case attr_data self of
                  Inl e \<Rightarrow> (Inl e, self)
                | Inr lst \<Rightarrow>
                    (case attr_dict rec of
                       Inl e \<Rightarrow> (Inl e, self)
                     | Inr d \<Rightarrow> (Inr (), p_save self)))))"

text \<open>Python's truth value of an optional string argument: \<open>None\<close> and \<open>""\<close> are false.\<close>

fun truthy :: "string option \<Rightarrow> bool" where
  "truthy None = False"
| "truthy (Some s) = (s \<noteq> [])"

text \<open>
  \<open>list_records\<close>. The comparisons \<open>>=\<close> and \<open><=\<close> on strings are lexicographic on
  the characters. The method reads \<open>_data\<close> and assigns nothing.
\<close>

fun str_le :: "string \<Rightarrow> string \<Rightarrow> bool" where
  "str_le [] b = True"
| "str_le (x # a) [] = False"
| "str_le (x # a) (y # b) = ((of_char x :: nat) < of_char y \<or> (x = y \<and> str_le a b))"

definition list_records ::
    "store \<Rightarrow> string option \<Rightarrow> string option \<Rightarrow> string option \<Rightarrow> attendance_record list" where
  "list_records self name_arg date_from date_to =
     (let records = p_data self;
          records = (if truthy name_arg
                     then (let s = lower (strip (the name_arg))
                           in filter (\<lambda>r. lower (student_name r) = s) records)
                     else records);
          records = (if truthy date_from
                     then filter (\<lambda>r. str_le (the date_from) (date r)) records
                     else records);
          records = (if truthy date_to
                     then filter (\<lambda>r. str_le (date r) (the date_to)) records
                     else records)
      in records)"

text \<open>The loop of \<open>student_monthly_percentage\<close> that collects \<open>chosen\<close>.\<close>

fun chosen_loop :: "string \<Rightarrow> int \<Rightarrow> int \<Rightarrow> attendance_record list \<Rightarrow> attendance_record list" where
  "chosen_loop s y m [] = []"
| "chosen_loop s y m (r # rs) =
     (if lower (student_name r) \<noteq> s then chosen_loop s y m rs
      else case strptime (date r) of
             None \<Rightarrow> chosen_loop s y m rs
           | Some d \<Rightarrow> (if year d = y \<and> month d = m then r # chosen_loop s y m rs
                        else chosen_loop s y m rs))"

text \<open>\<open>sum(1 for r in chosen if r["status"] == "Present")\<close>\<close>

fun count_present :: "attendance_record list \<Rightarrow> int" where
  "count_present [] = 0"
| "count_present (r # rs) = (if status r = ''Present'' then 1 else 0) + count_present rs"

text \<open>
  \<open>student_monthly_percentage\<close>: \<open>Inl\<close> is an error raised by the arithmetic.
\<close>

definition student_monthly_percentage ::
    "store \<Rightarrow> string \<Rightarrow> int \<Rightarrow> int \<Rightarrow> arith_error + (int \<times> int \<times> rat)" where
  "student_monthly_percentage self name_arg y m =
     (let s = lower (strip name_arg);
          chosen = chosen_loop s y m (p_data self);
          total = int (length chosen);
          present = count_present chosen
      in if total \<noteq> 0
         then (case truediv present total of
                 Inl e \<Rightarrow> Inl e
               | Inr q \<Rightarrow> Inr (total, present, round_2 (times_100 q)))
         else Inr (total, present, 0))"

section \<open>The wording of the claims\<close>

text \<open>A record of ASCII text: on these the string functions above are those of Python.\<close>

definition ascii_record :: "attendance_record \<Rightarrow> bool" where
  "ascii_record r = (ascii (student_name r) \<and> ascii (date r) \<and> ascii (status r) \<and> ascii (remarks r))"

text \<open>\<open>title\<close> on ASCII text.\<close>

fun title_ascii :: "bool \<Rightarrow> string \<Rightarrow> string" where
  "title_ascii previous_is_cased [] = []"
| "title_ascii previous_is_cased (c # cs) =
     (if previous_is_cased then to_lower c else to_upper c) # title_ascii (is_cased c) cs"

text \<open>The date of the record parses and falls in the year and the month.\<close>

definition in_month :: "int \<Rightarrow> int \<Rightarrow> attendance_record \<Rightarrow> bool" where
  "in_month y m r = (case strptime (date r) of None \<Rightarrow> False | Some d \<Rightarrow> year d = y \<and> month d = m)"

text \<open>\<open>round(presentDays / totalDays * 100, 2)\<close> when \<open>totalDays > 0\<close>, and \<open>0.0\<close> otherwise.\<close>

definition percentage_of :: "int \<Rightarrow> int \<Rightarrow> rat" where
  "percentage_of present_days total_days =
     (if 0 < total_days
      then round_2 (times_100 (fl (of_int present_days / of_int total_days))) else 0)"

text \<open>
  The monthly report as claim C5 words it: the selected records are those whose name
  matches the given name case-insensitively and whose date falls in the month.
\<close>

definition claimed_monthly_percentage :: "store \<Rightarrow> string \<Rightarrow> int \<Rightarrow> int \<Rightarrow> int \<times> int \<times> rat" where
  "claimed_monthly_percentage self name_arg y m =
     (let selected = filter (\<lambda>r. lower (student_name r) = lower name_arg \<and> in_month y m r) (p_data self);
          total = int (length selected);
          present = int (length (filter (\<lambda>r. status r = ''Present'') selected))
      in (total, present, percentage_of present total))"

text \<open>
  The listing as claim C6 words it: each filter that is supplied is applied, the name by
  case-insensitive exact match, the dates as inclusive bounds.
\<close>

definition claimed_list_records ::
    "store \<Rightarrow> string option \<Rightarrow> string option \<Rightarrow> string option \<Rightarrow> attendance_record list" where
  "claimed_list_records self name_arg date_from date_to =
     filter (\<lambda>r. (case name_arg of None \<Rightarrow> True | Some s \<Rightarrow> lower (student_name r) = lower s)
               \<and> (case date_from of None \<Rightarrow> True | Some d \<Rightarrow> str_le d (date r))
               \<and> (case date_to of None \<Rightarrow> True | Some d \<Rightarrow> str_le (date r) d))
       (p_data self)"






fun max_digit_run :: "string \<Rightarrow> nat" where
  "max_digit_run [] = 0"
| "max_digit_run (c # s) = max (length (takeWhile is_digit (c # s))) (max_digit_run s)"





section \<open>Example data\<close>

text \<open>The records and stores of the scenario of the specification.\<close>

definition john :: attendance_record where
  "john = \<lparr>student_name = ''John Doe'', date = ''2025-08-24'', status = ''Present'', remarks = ''''\<rparr>"

definition jane :: attendance_record where
  "jane = \<lparr>student_name = ''Jane Doe'', date = ''2025-08-24'', status = ''Absent'', remarks = ''sick''\<rparr>"

definition john_raw :: attendance_record where
  "john_raw = \<lparr>student_name = ''john doe'', date = ''2025-08-24'', status = ''present'', remarks = ''''\<rparr>"

definition john_absent_raw :: attendance_record where
  "john_absent_raw = \<lparr>student_name = ''JOHN DOE'', date = ''2025-08-24'', status = ''absent'', remarks = ''''\<rparr>"

definition john_late_raw :: attendance_record where
  "john_late_raw = \<lparr>student_name = '' JOHN doe'', date = ''2025-08-24 '', status = ''LATE'', remarks = ''overslept''\<rparr>"

definition jane_no_remarks :: attendance_record where
  "jane_no_remarks = \<lparr>student_name = ''Jane Doe'', date = ''2025-08-24'', status = ''absent'', remarks = ''''\<rparr>"

definition bad_date_no_name :: attendance_record where
  "bad_date_no_name = \<lparr>student_name = ''  '', date = ''24-08-2025'', status = ''present'', remarks = ''''\<rparr>"

definition bad_status_no_name :: attendance_record where
  "bad_status_no_name = \<lparr>student_name = '''', date = ''2025-08-24'', status = ''here'', remarks = ''''\<rparr>"

definition absent_no_remarks_no_name :: attendance_record where
  "absent_no_remarks_no_name = \<lparr>student_name = '''', date = ''2025-8-4'', status = '' ABSENT'', remarks = '' ''\<rparr>"

definition no_name :: attendance_record where
  "no_name = \<lparr>student_name = '' '', date = ''2025-08-24'', status = ''late'', remarks = ''''\<rparr>"

definition empty_store :: store where
  "empty_store = \<lparr>path = ''data/attendance.json'', p_data = [],
                   files = [''data/attendance.json'' \<mapsto> ''[]'']\<rparr>"

definition example_store :: store where
  "example_store = \<lparr>path = ''data/attendance.json'', p_data = [john, jane],
                     files = [''data/attendance.json'' \<mapsto> encode_list [john, jane]]\<rparr>"

definition john_lowercase_status :: attendance_record where
  "john_lowercase_status = \<lparr>student_name = ''John Doe'', date = ''2025-08-25'', status = ''present'', remarks = ''''\<rparr>"

definition hand_edited_store :: store where
  "hand_edited_store = \<lparr>path = ''data/attendance.json'', p_data = [john, john_lowercase_status, jane],
                     files = [''data/attendance.json'' \<mapsto> encode_list [john, john_lowercase_status, jane]]\<rparr>"





text \<open>A name that starts with U+01F0, the small letter j with caron.\<close>

definition caron_raw :: attendance_record where
  "caron_raw = \<lparr>student_name = [CHR 0xC7, CHR 0xB0, CHR ''a''], date = ''2025-08-24'',
                 status = ''present'', remarks = ''''\<rparr>"







section \<open>Normalisation is idempotent\<close>

lemma title_from_ascii: "ascii s \<Longrightarrow> title_from b s = title_ascii b s"
  by (induction b s rule: title_from.induct) (auto simp: ascii_def)

lemma ascii_to_lower: "(of_char c :: nat) < 128 \<Longrightarrow> (of_char (to_lower c) :: nat) < 128"
  by (auto simp: to_lower_def is_upper_def Let_def)

lemma ascii_to_upper: "(of_char c :: nat) < 128 \<Longrightarrow> (of_char (to_upper c) :: nat) < 128"
  by (auto simp: to_upper_def is_lower_def Let_def)

lemma ascii_title_ascii: "ascii s \<Longrightarrow> ascii (title_ascii b s)"
  by (induction s arbitrary: b) (simp_all add: ascii_def ascii_to_lower ascii_to_upper)

lemma ascii_strip: "ascii s \<Longrightarrow> ascii (strip s)"
proof -
  have "set (strip s) \<subseteq> set s"
    unfolding strip_def by (metis set_dropWhileD set_rev subsetI)
  then show "ascii s \<Longrightarrow> ascii (strip s)"
    by (auto simp: ascii_def list_all_iff)
qed

lemma to_lower_idem: "to_lower (to_lower c) = to_lower c"
  by (auto simp: to_lower_def is_upper_def Let_def)

lemma to_upper_idem: "to_upper (to_upper c) = to_upper c"
  by (auto simp: to_upper_def is_lower_def Let_def)

lemma is_cased_to_lower: "is_cased (to_lower c) = is_cased c"
  by (auto simp: to_lower_def is_cased_def is_upper_def is_lower_def Let_def)

lemma is_cased_to_upper: "is_cased (to_upper c) = is_cased c"
  by (auto simp: to_upper_def is_cased_def is_upper_def is_lower_def Let_def)

lemma is_space_to_lower: "is_space (to_lower c) = is_space c"
  by (auto simp: to_lower_def is_space_def is_upper_def Let_def)

lemma is_space_to_upper: "is_space (to_upper c) = is_space c"
  by (auto simp: to_upper_def is_space_def is_lower_def Let_def)

lemma title_ascii_idem: "title_ascii b (title_ascii b s) = title_ascii b s"
  by (induction s arbitrary: b)
     (simp_all add: to_lower_idem to_upper_idem is_cased_to_lower is_cased_to_upper)

lemma title_ascii_Nil_iff: "title_ascii b s = [] \<longleftrightarrow> s = []"
  by (cases s) simp_all

lemma is_space_hd_title_ascii: "s \<noteq> [] \<Longrightarrow> is_space (hd (title_ascii b s)) = is_space (hd s)"
  by (cases s) (simp_all add: is_space_to_lower is_space_to_upper)

lemma is_space_last_title_ascii: "s \<noteq> [] \<Longrightarrow> is_space (last (title_ascii b s)) = is_space (last s)"
  by (induction s arbitrary: b)
     (auto simp: is_space_to_lower is_space_to_upper title_ascii_Nil_iff)

lemma capitalize_idem: "capitalize (capitalize s) = capitalize s"
  by (cases s) (simp_all add: capitalize_def to_upper_idem to_lower_idem)

lemma capitalize_Nil_iff: "capitalize s = [] \<longleftrightarrow> s = []"
  by (cases s) (simp_all add: capitalize_def)

lemma is_space_hd_capitalize: "s \<noteq> [] \<Longrightarrow> is_space (hd (capitalize s)) = is_space (hd s)"
  by (cases s) (simp_all add: capitalize_def is_space_to_upper)

lemma is_space_last_capitalize: "s \<noteq> [] \<Longrightarrow> is_space (last (capitalize s)) = is_space (last s)"
  by (cases s) (auto simp: capitalize_def is_space_to_upper is_space_to_lower last_map)

lemma strip_fix: "stripped s \<Longrightarrow> strip s = s"
proof (cases "s = []")
  case True
  then show ?thesis by (simp add: strip_def)
next
  case False
  assume "stripped s"
  with False have h: "\<not> is_space (hd s)" and l: "\<not> is_space (last s)"
    by (simp_all add: stripped_def)
  from h False have "dropWhile is_space s = s"
    by (cases s) simp_all
  moreover from l False have "dropWhile is_space (rev s) = rev s"
    by (cases "rev s") (simp_all add: last_rev[symmetric] hd_rev)
  ultimately show ?thesis by (simp add: strip_def)
qed

lemma stripped_strip: "stripped (strip s)"
proof (cases "strip s = []")
  case True
  then show ?thesis by (simp add: stripped_def)
next
  case False
  define d where "d = dropWhile is_space s"
  define e where "e = dropWhile is_space (rev d)"
  have se: "strip s = rev e" by (simp add: strip_def d_def e_def)
  with False have ene: "e \<noteq> []" by simp
  then have dne: "d \<noteq> []" by (auto simp: e_def)
  have "\<not> is_space (hd e)" using ene unfolding e_def by (rule hd_dropWhile)
  then have l: "\<not> is_space (last (strip s))" using ene by (simp add: se last_rev)
  have "\<not> is_space (hd d)" using dne unfolding d_def by (rule hd_dropWhile)
  moreover have "last e = last (rev d)"
    using ene unfolding e_def by (metis takeWhile_dropWhile_id last_appendR)
  ultimately have "\<not> is_space (hd (strip s))" using ene dne by (simp add: se hd_rev last_rev)
  with l show ?thesis by (simp add: stripped_def)
qed

lemma strip_idem: "strip (strip s) = strip s"
  by (rule strip_fix) (rule stripped_strip)

lemma stripped_title: "ascii s \<Longrightarrow> stripped s \<Longrightarrow> stripped (title s)"
  by (auto simp: stripped_def title_def title_from_ascii title_ascii_Nil_iff
      is_space_hd_title_ascii is_space_last_title_ascii)

lemma stripped_capitalize: "stripped s \<Longrightarrow> stripped (capitalize s)"
  by (auto simp: stripped_def capitalize_Nil_iff is_space_hd_capitalize is_space_last_capitalize)

lemma title_idem: "ascii s \<Longrightarrow> title (title s) = title s"
  by (simp add: title_def title_from_ascii ascii_title_ascii title_ascii_idem)

lemma ascii_title: "ascii s \<Longrightarrow> ascii (title s)"
  by (simp add: title_def title_from_ascii ascii_title_ascii)

lemma strip_title_strip: "ascii s \<Longrightarrow> strip (title (strip s)) = title (strip s)"
  by (simp add: strip_fix stripped_title stripped_strip ascii_strip)

lemma strip_capitalize_strip: "strip (capitalize (strip s)) = capitalize (strip s)"
  by (simp add: strip_fix stripped_capitalize stripped_strip)

lemma clean_idem: "ascii (student_name r) \<Longrightarrow> clean (clean r) = clean r"
  by (simp add: clean_def strip_idem strip_title_strip strip_capitalize_strip
      title_idem ascii_strip capitalize_idem)

lemma validate_clean: "ascii (student_name r) \<Longrightarrow> validate (clean r) = validate r"
  by (simp add: validate_def clean_idem)

lemma validate_Inr: "validate r = Inr c \<Longrightarrow> c = clean r"
  by (auto simp: validate_def Let_def split: if_splits)

section \<open>Validation\<close>

lemma validate_john_raw: "validate john_raw = Inr john"
  by code_simp

text \<open>
  Claim C2. \<open>validate\<close> normalises the record and then checks the date format, the
  status, the remarks of an absence and the name, in this order; the error is that of
  the first check that fails, and the four errors are different. A record with an invalid
  date and an empty name gets \<open>InvalidDate\<close>.
\<close>

theorem validate_first_failure_wins:
  "(strptime (date (clean raw)) = None \<longrightarrow> validate raw = Inl InvalidDate) \<and>
   (strptime (date (clean raw)) \<noteq> None \<and> status (clean raw) \<notin> set VALID_STATUSES
      \<longrightarrow> validate raw = Inl InvalidStatus) \<and>
   (strptime (date (clean raw)) \<noteq> None \<and> status (clean raw) = ''Absent'' \<and> remarks (clean raw) = []
      \<longrightarrow> validate raw = Inl MissingRemarks) \<and>
   (strptime (date (clean raw)) \<noteq> None \<and> status (clean raw) \<in> set VALID_STATUSES
      \<and> \<not> (status (clean raw) = ''Absent'' \<and> remarks (clean raw) = [])
      \<and> student_name (clean raw) = []
      \<longrightarrow> validate raw = Inl EmptyName) \<and>
   (strptime (date (clean raw)) \<noteq> None \<and> status (clean raw) \<in> set VALID_STATUSES
      \<and> \<not> (status (clean raw) = ''Absent'' \<and> remarks (clean raw) = [])
      \<and> student_name (clean raw) \<noteq> []
      \<longrightarrow> validate raw = Inr (clean raw)) \<and>
   distinct [InvalidDate, InvalidStatus, MissingRemarks, EmptyName]"
  by (simp add: validate_def Let_def VALID_STATUSES_def InvalidDate_def InvalidStatus_def
      MissingRemarks_def EmptyName_def)

theorem validate_first_failure_wins_witness:
  "strptime (date (clean bad_date_no_name)) = None \<and> student_name (clean bad_date_no_name) = [] \<and>
   validate bad_date_no_name = Inl InvalidDate \<and> validate bad_date_no_name \<noteq> Inl EmptyName \<and>
   validate bad_status_no_name = Inl InvalidStatus \<and>
   validate absent_no_remarks_no_name = Inl MissingRemarks \<and>
   validate no_name = Inl EmptyName \<and>
   validate john_raw = Inr (clean john_raw)"
proof -
  have d: "strptime (date (clean bad_date_no_name)) = None" by code_simp
  have n: "student_name (clean bad_date_no_name) = []" by code_simp
  from validate_first_failure_wins [of bad_date_no_name] d
  have v: "validate bad_date_no_name = Inl InvalidDate" by blast
  from validate_first_failure_wins [of bad_date_no_name]
  have "InvalidDate \<noteq> EmptyName" by simp
  with d n v have a: "strptime (date (clean bad_date_no_name)) = None \<and>
      student_name (clean bad_date_no_name) = [] \<and>
      validate bad_date_no_name = Inl InvalidDate \<and> validate bad_date_no_name \<noteq> Inl EmptyName"
    by simp
  have "strptime (date (clean bad_status_no_name)) \<noteq> None" by code_simp
  moreover have "status (clean bad_status_no_name) \<notin> set VALID_STATUSES" by code_simp
  ultimately have b: "validate bad_status_no_name = Inl InvalidStatus"
    using validate_first_failure_wins [of bad_status_no_name] by blast
  have "strptime (date (clean absent_no_remarks_no_name)) \<noteq> None" by code_simp
  moreover have "status (clean absent_no_remarks_no_name) = ''Absent''" by code_simp
  moreover have "remarks (clean absent_no_remarks_no_name) = []" by code_simp
  ultimately have c: "validate absent_no_remarks_no_name = Inl MissingRemarks"
    using validate_first_failure_wins [of absent_no_remarks_no_name] by blast
  have "strptime (date (clean no_name)) \<noteq> None" by code_simp
  moreover have "status (clean no_name) \<in> set VALID_STATUSES" by code_simp
  moreover have "\<not> (status (clean no_name) = ''Absent'' \<and> remarks (clean no_name) = [])"
    by code_simp
  moreover have "student_name (clean no_name) = []" by code_simp
  ultimately have e: "validate no_name = Inl EmptyName"
    using validate_first_failure_wins [of no_name] by blast
  have "strptime (date (clean john_raw)) \<noteq> None" by code_simp
  moreover have "status (clean john_raw) \<in> set VALID_STATUSES" by code_simp
  moreover have "\<not> (status (clean john_raw) = ''Absent'' \<and> remarks (clean john_raw) = [])"
    by code_simp
  moreover have "student_name (clean john_raw) \<noteq> []" by code_simp
  ultimately have f: "validate john_raw = Inr (clean john_raw)"
    using validate_first_failure_wins [of john_raw] by blast
  from a b c e f show ?thesis by blast
qed

section \<open>Adding a record\<close>

lemma find_existing_None_iff:
  "find_existing rs rec = None \<longleftrightarrow>
     (\<forall>r \<in> set rs. \<not> (lower (student_name r) = lower (student_name rec) \<and> date r = date rec))"
  by (induction rs) auto

text \<open>
  Claim C1. A record that passes validation and the uniqueness check is to be appended to
  the sequence of the store and the file rewritten. The code does neither: on the empty
  store, \<open>john_raw\<close> passes validation and the uniqueness check, and \<open>add_record\<close>
  raises \<open>AttributeError\<close> on \<open>self.data\<close>, leaving the sequence and the file as they
  were.
\<close>

theorem add_record_success_path_raises:
  "validate john_raw = Inr john \<and> find_existing (p_data empty_store) john = None \<and>
   add_record empty_store john_raw = (Inl (AttributeError ''AttendanceDB'' ''data''), empty_store)"
  by (simp add: validate_john_raw add_record_def attr_data_def empty_store_def)

text \<open>
  Claim C4. When \<open>add_record\<close> fails, the state it leaves (the sequence of records and
  the files) is the state before the call.
\<close>

theorem add_record_failure_leaves_state:
  "fst (add_record self rec0) = Inl e \<Longrightarrow> snd (add_record self rec0) = self"
  by (auto simp: add_record_def split: sum.splits option.splits)

theorem add_record_failure_leaves_state_witness:
  "fst (add_record example_store jane_no_remarks) = Inl MissingRemarks \<and>
   fst (add_record example_store john_raw) = Inl (DuplicateRecord john) \<and>
   snd (add_record example_store jane_no_remarks) = example_store \<and>
   snd (add_record example_store john_raw) = example_store"
proof -
  have v: "validate jane_no_remarks = Inl MissingRemarks"
    by (simp add: MissingRemarks_def) code_simp
  then have a: "fst (add_record example_store jane_no_remarks) = Inl MissingRemarks"
    by (simp add: add_record_def)
  have f: "find_existing (p_data example_store) john = Some john"
    by (simp add: example_store_def)
  have b: "fst (add_record example_store john_raw) = Inl (DuplicateRecord john)"
    by (simp add: add_record_def validate_john_raw f)
  from a b add_record_failure_leaves_state [of example_store jane_no_remarks MissingRemarks]
    add_record_failure_leaves_state [of example_store john_raw "DuplicateRecord john"]
  show ?thesis by simp
qed

text \<open>
  The loop over the stored records: when the store holds a record with the name, in any
  case, and the date of a valid attempt, the attempt fails with \<open>DuplicateRecord\<close>.
\<close>

lemma add_record_duplicate:
  assumes "validate rec0 = Inr rec" and "r \<in> set (p_data self)"
    and "lower (student_name r) = lower (student_name rec)" and "date r = date rec"
  shows "add_record self rec0 = (Inl (DuplicateRecord rec), self)"
proof -
  from assms(2-4) have "find_existing (p_data self) rec \<noteq> None"
    by (auto simp: find_existing_None_iff)
  with assms(1) show ?thesis by (auto simp: add_record_def)
qed

text \<open>
  No call of \<open>add_record\<close> returns: whatever the store and the record, it raises.
\<close>

lemma add_record_never_returns: "\<exists>e. fst (add_record self rec0) = Inl e"
  by (auto simp: add_record_def attr_data_def split: sum.splits option.splits)


section \<open>Normalising twice\<close>

text \<open>
  Claim C9, as stated: for every raw record that \<open>validate\<close> accepts, normalising the
  result again leaves it unchanged. It does not when the name has a character whose title
  case is more than one character: the name U+01F0 \<open>a\<close> is accepted and becomes
  \<open>J\<close>, U+030C, \<open>a\<close>; normalised again, the \<open>a\<close> follows a character that is not
  cased and becomes \<open>A\<close>. Validating the normalised record yields another record.
\<close>

theorem idempotence_claim_counterexample:
  "validate caron_raw = Inr (clean caron_raw) \<and>
   student_name (clean caron_raw) = [CHR ''J'', CHR 0xCC, CHR 0x8C, CHR ''a''] \<and>
   student_name (clean (clean caron_raw)) = [CHR ''J'', CHR 0xCC, CHR 0x8C, CHR ''A''] \<and>
   clean (clean caron_raw) \<noteq> clean caron_raw \<and>
   validate (clean caron_raw) = Inr (clean (clean caron_raw)) \<and>
   validate (clean caron_raw) \<noteq> Inr (clean caron_raw)"
proof -
  have a: "validate caron_raw = Inr (clean caron_raw)" by code_simp
  have b: "student_name (clean caron_raw) = [CHR ''J'', CHR 0xCC, CHR 0x8C, CHR ''a'']"
    by code_simp
  have c: "student_name (clean (clean caron_raw)) = [CHR ''J'', CHR 0xCC, CHR 0x8C, CHR ''A'']"
    by code_simp
  have d: "validate (clean caron_raw) = Inr (clean (clean caron_raw))" by code_simp
  from b c have e: "clean (clean caron_raw) \<noteq> clean caron_raw" by auto
  from a b c d e show ?thesis by simp
qed

text \<open>
  Claim C9, amended: when \<open>validate\<close> accepts a raw record of ASCII text, the record it
  yields is left unchanged by the normalisation, and validating it again yields the same
  record.
\<close>

theorem validate_idempotent:
  assumes "ascii_record raw" and "validate raw = Inr rec"
  shows "clean rec = rec \<and> validate rec = Inr rec"
proof -
  from assms(1) have a: "ascii (student_name raw)" by (simp add: ascii_record_def)
  from assms(2) have r: "rec = clean raw" by (rule validate_Inr)
  with a have "clean rec = rec" by (simp add: clean_idem)
  moreover from r a assms(2) have "validate rec = Inr rec" by (simp add: validate_clean)
  ultimately show ?thesis ..
qed

theorem validate_idempotent_witness:
  "ascii_record john_late_raw \<and> validate john_late_raw = Inr (clean john_late_raw) \<and>
   clean john_late_raw \<noteq> john_late_raw \<and>
   clean (clean john_late_raw) = clean john_late_raw \<and>
   validate (clean john_late_raw) = Inr (clean john_late_raw)"
proof -
  have a: "ascii_record john_late_raw" by code_simp
  have v: "validate john_late_raw = Inr (clean john_late_raw)" by code_simp
  have n: "clean john_late_raw \<noteq> john_late_raw" by code_simp
  from validate_idempotent [OF a v] a v n show ?thesis by simp
qed

section \<open>The monthly report\<close>

lemma chosen_loop_filter:
  "chosen_loop s y m rs = filter (\<lambda>r. lower (student_name r) = s \<and> in_month y m r) rs"
  by (induction rs) (auto simp: in_month_def split: option.splits)

lemma count_present_filter:
  "count_present rs = int (length (filter (\<lambda>r. status r = ''Present'') rs))"
  by (induction rs) auto

text \<open>
  Claim C5, as stated: the selected records are those whose name matches the given name
  case-insensitively. They are not: the given name is trimmed first. With a trailing
  blank in the name, the code reports John Doe's record, and the selection that the claim
  words is empty.
\<close>

theorem monthly_claim_counterexample:
  "student_monthly_percentage example_store ''John Doe '' 2025 8 = Inr (1, 1, 100) \<and>
   claimed_monthly_percentage example_store ''John Doe '' 2025 8 = (0, 0, 0)"
proof -
  have "student_monthly_percentage example_store ''John Doe '' 2025 8 = Inr (1, 1, 100)"
    by code_simp
  moreover have "claimed_monthly_percentage example_store ''John Doe '' 2025 8 = (0, 0, 0)"
    by code_simp
  ultimately show ?thesis by simp
qed

text \<open>
  Claim C5, amended: \<open>student_monthly_percentage\<close> always returns, never raising
  \<open>ZeroDivisionError\<close>. Its result is \<open>(totalDays, presentDays, percentage)\<close> over the
  records whose name equals the trimmed given name case-insensitively and whose date parses and
  falls in the year and month; the percentage is \<open>round(presentDays / totalDays * 100, 2)\<close>
  when \<open>totalDays > 0\<close> and \<open>0.0\<close> otherwise, so that no matching record gives
  \<open>(0, 0, 0.0)\<close>.
\<close>

theorem student_monthly_percentage_result:
  "student_monthly_percentage self name_arg y m =
     (let selected = filter (\<lambda>r. lower (student_name r) = lower (strip name_arg) \<and> in_month y m r)
                       (p_data self);
          total = int (length selected);
          present = int (length (filter (\<lambda>r. status r = ''Present'') selected))
      in Inr (total, present, percentage_of present total))"
  by (simp add: student_monthly_percentage_def Let_def chosen_loop_filter count_present_filter
      truediv_def percentage_of_def del: filter_filter)

theorem student_monthly_percentage_result_witness:
  "student_monthly_percentage example_store ''john doe'' 2025 8 = Inr (1, 1, 100) \<and>
   student_monthly_percentage example_store ''Jane Doe'' 2025 8 = Inr (1, 0, 0) \<and>
   student_monthly_percentage example_store ''Jane Doe'' 2025 9 = Inr (0, 0, 0) \<and>
   student_monthly_percentage hand_edited_store '' JOHN DOE'' 2025 8 = Inr (2, 1, 50)"
proof -
  have a: "filter (\<lambda>r. lower (student_name r) = lower (strip ''john doe'') \<and> in_month 2025 8 r)
             (p_data example_store) = [john]" by code_simp
  have b: "filter (\<lambda>r. lower (student_name r) = lower (strip ''Jane Doe'') \<and> in_month 2025 8 r)
             (p_data example_store) = [jane]" by code_simp
  have c: "filter (\<lambda>r. lower (student_name r) = lower (strip ''Jane Doe'') \<and> in_month 2025 9 r)
             (p_data example_store) = []" by code_simp
  have d: "filter (\<lambda>r. lower (student_name r) = lower (strip '' JOHN DOE'') \<and> in_month 2025 8 r)
             (p_data hand_edited_store) = [john, john_lowercase_status]" by code_simp
  have p1: "percentage_of 1 1 = 100" by code_simp
  have p2: "percentage_of 0 1 = 0" by code_simp
  have p3: "percentage_of 1 2 = 50" by code_simp
  have p4: "percentage_of 0 0 = 0" by code_simp
  show ?thesis
    using student_monthly_percentage_result [of example_store "''john doe''" 2025 8]
      student_monthly_percentage_result [of example_store "''Jane Doe''" 2025 8]
      student_monthly_percentage_result [of example_store "''Jane Doe''" 2025 9]
      student_monthly_percentage_result [of hand_edited_store "'' JOHN DOE''" 2025 8]
    by (simp add: a b c d p1 p2 p3 p4 john_def jane_def john_lowercase_status_def)
qed

text \<open>
  Claim C10. Of the records that the report selects, all count towards \<open>totalDays\<close> and
  exactly those whose stored status is the string \<open>Present\<close> count towards
  \<open>presentDays\<close>: a status \<open>present\<close>, as a hand-edited file may hold it, does not.
\<close>

theorem present_counts_exact_status:
  "\<exists>pct. student_monthly_percentage self name_arg y m =
     Inr (int (length (chosen_loop (lower (strip name_arg)) y m (p_data self))),
          int (length (filter (\<lambda>r. status r = ''Present'')
                         (chosen_loop (lower (strip name_arg)) y m (p_data self)))),
          pct)"
  by (simp add: student_monthly_percentage_def Let_def count_present_filter truediv_def)

theorem present_counts_exact_status_witness:
  "chosen_loop (lower (strip ''John Doe'')) 2025 8 (p_data hand_edited_store) = [john, john_lowercase_status] \<and>
   filter (\<lambda>r. status r = ''Present'') [john, john_lowercase_status] = [john] \<and>
   (\<exists>pct. student_monthly_percentage hand_edited_store ''John Doe'' 2025 8 = Inr (2, 1, pct))"
proof -
  have a: "chosen_loop (lower (strip ''John Doe'')) 2025 8 (p_data hand_edited_store)
             = [john, john_lowercase_status]" by code_simp
  have b: "filter (\<lambda>r. status r = ''Present'') [john, john_lowercase_status] = [john]" by code_simp
  from present_counts_exact_status [of hand_edited_store "''John Doe''" 2025 8] a b
  show ?thesis by simp
qed

section \<open>Listing records\<close>

text \<open>
  Claim C6, as stated: the result is the records that satisfy every supplied filter, the
  name by case-insensitive exact match. It is not: the name given is trimmed before it is
  compared, and a filter given as the empty string is not applied. The name
  \<open>john doe\<close> with a trailing blank finds John Doe's record, which it does not match;
  the upper bound \<open>""\<close> lets both records through, which it does not bound.
\<close>

theorem list_claim_counterexample:
  "list_records example_store (Some ''john doe '') None None = [john] \<and>
   claimed_list_records example_store (Some ''john doe '') None None = [] \<and>
   list_records example_store None None (Some '''') = [john, jane] \<and>
   claimed_list_records example_store None None (Some '''') = []"
proof -
  have "list_records example_store (Some ''john doe '') None None = [john]" by code_simp
  moreover have "claimed_list_records example_store (Some ''john doe '') None None = []" by code_simp
  moreover have "list_records example_store None None (Some '''') = [john, jane]" by code_simp
  moreover have "claimed_list_records example_store None None (Some '''') = []" by code_simp
  ultimately show ?thesis by simp
qed

text \<open>
  Claim C6, amended: \<open>list_records\<close> returns, in the order of the store, exactly the
  records that satisfy every filter that is given and not empty: the name equal to the
  trimmed filter case-insensitively, the date at or after \<open>date_from\<close> and at or before
  \<open>date_to\<close> as strings. It is a function of the store and leaves it as it is.
\<close>

theorem list_records_filter:
  "list_records self name_arg date_from date_to =
     filter (\<lambda>r. (truthy name_arg \<longrightarrow> lower (student_name r) = lower (strip (the name_arg)))
               \<and> (truthy date_from \<longrightarrow> str_le (the date_from) (date r))
               \<and> (truthy date_to \<longrightarrow> str_le (date r) (the date_to)))
       (p_data self)"
  by (auto simp: list_records_def Let_def intro!: filter_cong)

theorem list_records_filter_witness:
  "truthy (Some ''2025-08-01'') \<and> truthy (Some ''2025-08-31'') \<and> \<not> truthy None \<and>
   list_records example_store None (Some ''2025-08-01'') (Some ''2025-08-31'') = [john, jane] \<and>
   list_records example_store (Some ''JANE DOE'') (Some ''2025-08-24'') (Some ''2025-08-24'') = [jane] \<and>
   list_records example_store None (Some ''2025-08-25'') None = []"
proof -
  have a: "filter (\<lambda>r. str_le ''2025-08-01'' (date r) \<and> str_le (date r) ''2025-08-31'')
            (p_data example_store) = [john, jane]" by code_simp
  have b: "filter (\<lambda>r. lower (student_name r) = lower (strip ''JANE DOE'')
              \<and> str_le ''2025-08-24'' (date r) \<and> str_le (date r) ''2025-08-24'')
            (p_data example_store) = [jane]" by code_simp
  have c: "filter (\<lambda>r. str_le ''2025-08-25'' (date r)) (p_data example_store) = []" by code_simp
  show ?thesis
    using list_records_filter [of example_store None "Some ''2025-08-01''" "Some ''2025-08-31''"]
      list_records_filter [of example_store "Some ''JANE DOE''" "Some ''2025-08-24''" "Some ''2025-08-24''"]
      list_records_filter [of example_store None "Some ''2025-08-25''" None]
    by (simp add: a b c)
qed

section \<open>What is written can be read\<close>

subsection \<open>Line endings\<close>









subsection \<open>Well-formed UTF-8\<close>





















subsection \<open>Scanning what the encoder wrote\<close>















subsection \<open>The decoder and the tokens\<close>



subsection \<open>Parsing the tokens\<close>








section \<open>The decoder, the grammar and the limits\<close>

subsection \<open>What the decoder accepts is JSON\<close>






subsection \<open>What is left of the text after a token\<close>













subsection \<open>Nesting\<close>






subsection \<open>Digits\<close>

lemma takeWhile_digit_length: "length (takeWhile is_digit s) \<le> max_digit_run s"
  by (cases s) auto














subsection \<open>Text within the limits\<close>





subsection \<open>Text that reaches a limit\<close>










section \<open>Saving and loading\<close>






end
